theory Spec2Isabelle
  imports Main
begin

section \<open>Text\<close>

text \<open>
  A Python \<open>str\<close> is a sequence of Unicode code points; the messages of the
  program are Chinese, so a string is a list of code points. \<open>u\<close> turns an
  ASCII literal into such a list.
\<close>

type_synonym ustr = "nat list"

definition u :: "string \<Rightarrow> ustr" where
  "u s = map of_char s"

text \<open>
  \<open>str.isspace\<close> of one code point: the characters CPython treats as
  whitespace (bidirectional class WS, B or S, or category Zs).
\<close>

definition is_space :: "nat \<Rightarrow> bool" where
  "is_space c \<longleftrightarrow>
     (9 \<le> c \<and> c \<le> 13) \<or> (28 \<le> c \<and> c \<le> 32) \<or> c = 133 \<or> c = 160 \<or> c = 5760 \<or>
     (8192 \<le> c \<and> c \<le> 8202) \<or> c = 8232 \<or> c = 8233 \<or> c = 8239 \<or> c = 8287 \<or>
     c = 12288"

definition lstrip :: "ustr \<Rightarrow> ustr" where
  "lstrip s = dropWhile is_space s"

definition rstrip :: "ustr \<Rightarrow> ustr" where
  "rstrip s = rev (dropWhile is_space (rev s))"

text \<open>\<open>str.strip()\<close> with no argument.\<close>

definition strip :: "ustr \<Rightarrow> ustr" where
  "strip s = rstrip (lstrip s)"

section \<open>The orchestrator (main.py)\<close>

text \<open>
  What \<open>subprocess.run(..., check=True, capture_output=True, text=True)\<close> can do:
  the child ran and left a return code with its decoded standard output (its
  standard error is only echoed, and is left out); the executable was not
  found (\<open>FileNotFoundError\<close>); or the call raised something else (another
  \<open>OSError\<close>, a decoding error), which neither handler of the orchestrator
  catches.
  The argument vector is written without the interpreter path.
\<close>

datatype proc = Completed int ustr | NotFound | OtherFailure

text \<open>A Python call either returns a value or lets an exception escape.\<close>

datatype 'a py = Returns 'a | Uncaught

definition annotator_script :: ustr where
  "annotator_script = u ''image_search_annotator.py''"

definition selector_script :: ustr where
  "selector_script = u ''vlm_selector.py''"

definition labeled_screenshot :: ustr where
  "labeled_screenshot = u ''labeled_screenshot.png''"

text \<open>
  \<open>run_image_search\<close>: \<open>True\<close> when the child returned 0; a non-zero return code
  is \<open>CalledProcessError\<close>, caught, \<open>False\<close>; so is \<open>FileNotFoundError\<close>.
  The second component is the log of child processes started so far.
\<close>

definition run_image_search ::
  "(ustr list \<Rightarrow> proc) \<Rightarrow> ustr \<Rightarrow> ustr list list \<Rightarrow> bool py \<times> ustr list list" where
  "run_image_search subprocess_run query log =
     (let argv = [annotator_script, query] in
      (case subprocess_run argv of
         Completed rc out \<Rightarrow> if rc = 0 then Returns True else Returns False
       | NotFound \<Rightarrow> Returns False
       | OtherFailure \<Rightarrow> Uncaught,
       log @ [argv]))"

text \<open>
  \<open>run_vlm_selector\<close>: the stripped standard output of the child when it
  returned 0, Python's \<open>None\<close> on \<open>CalledProcessError\<close> or \<open>FileNotFoundError\<close>.
\<close>

definition run_vlm_selector ::
  "(ustr list \<Rightarrow> proc) \<Rightarrow> ustr \<Rightarrow> ustr list list \<Rightarrow> ustr option py \<times> ustr list list" where
  "run_vlm_selector subprocess_run prompt log =
     (let image_path = labeled_screenshot;
          argv = [selector_script, image_path, prompt] in
      (case subprocess_run argv of
         Completed rc out \<Rightarrow>
           if rc = 0 then Returns (Some (strip out)) else Returns None
       | NotFound \<Rightarrow> Returns None
       | OtherFailure \<Rightarrow> Uncaught,
       log @ [argv]))"

text \<open>
  The outcome of one run of the orchestrator: its exit status, the label it
  printed in the result banner (if it printed the banner), and the child
  processes it started, in order. The progress messages are not modelled.
\<close>

record pipeline_result =
  exit_code :: int
  reported :: "ustr option"
  invocations :: "ustr list list"

text \<open>
  Python's truth value of \<open>selected_image_label\<close>: \<open>None\<close> and the empty string
  are false.
\<close>

fun truthy :: "ustr option \<Rightarrow> bool" where
  "truthy None = False"
| "truthy (Some s) = (s \<noteq> [])"

text \<open>
  \<open>main\<close>, after argument parsing. \<open>sys.exit(1)\<close> and an uncaught exception
  both end the process with status 1; falling off the end is status 0.
\<close>

definition main :: "(ustr list \<Rightarrow> proc) \<Rightarrow> ustr \<Rightarrow> ustr \<Rightarrow> pipeline_result" where
  "main subprocess_run query prompt =
     (case run_image_search subprocess_run query [] of
        (Uncaught, log) \<Rightarrow> \<lparr>exit_code = 1, reported = None, invocations = log\<rparr>
      | (Returns False, log) \<Rightarrow> \<lparr>exit_code = 1, reported = None, invocations = log\<rparr>
      | (Returns True, log) \<Rightarrow>
          (case run_vlm_selector subprocess_run prompt log of
             (Uncaught, log') \<Rightarrow> \<lparr>exit_code = 1, reported = None, invocations = log'\<rparr>
           | (Returns selected_image_label, log') \<Rightarrow>
               if truthy selected_image_label
               then \<lparr>exit_code = 0, reported = selected_image_label, invocations = log'\<rparr>
               else \<lparr>exit_code = 1, reported = None, invocations = log'\<rparr>))"

text \<open>How often a run started the Selection Client.\<close>

definition selector_calls :: "pipeline_result \<Rightarrow> nat" where
  "selector_calls r = length (filter (\<lambda>argv. take 1 argv = [selector_script]) (invocations r))"

text \<open>A stage succeeded when its process returned status 0.\<close>

fun stage_ok :: "proc \<Rightarrow> bool" where
  "stage_ok (Completed rc out) = (rc = 0)"
| "stage_ok NotFound = False"
| "stage_ok OtherFailure = False"

section \<open>The Selection Client (vlm_selector.py)\<close>

text \<open>
  The world the Selection Client runs in: the three environment variables,
  whether building the API client raises (with the exception's text), what
  reading the image file does, and what the remote model does when called.
\<close>

datatype image_read = ImageBytes "nat list" | ImageMissing | ImageUnreadable

text \<open>
  The remote call either raises (with the exception's text) or returns a
  response; a response is the list of its choices, each with an optional
  message content.
\<close>

datatype api_outcome = Reply "ustr option list" | ApiError ustr

record sel_env =
  api_key :: "ustr option"
  base_url :: "ustr option"
  model_name :: "ustr option"
  client_error :: "ustr option"
  image_file :: image_read
  api :: api_outcome

text \<open>What the Selection Client does to the outside, in order.\<close>

datatype sel_event =
    CreateClient
  | ReadImage ustr
  | ChatCompletion ustr ustr "nat list" nat

text \<open>A call returns a string, or leaves through \<open>sys.exit\<close>.\<close>

datatype sel_result = Return ustr | SysExit int

text \<open>The message returned when a connection parameter is missing.\<close>

definition config_error_message :: ustr where
  "config_error_message =
     [38169, 35823, 65306, 35831, 30830, 20445, 32] @ u ''OPENAI_API_KEY, OPENAI_API_BASE, '' @
     [21644, 32] @ u ''OPENAI_MODEL_NAME '' @
     [29615, 22659, 21464, 37327, 37117, 24050, 35774, 32622, 12290]"

text \<open>The prefix of the message returned when the call raised.\<close>

definition api_error_prefix :: ustr where
  "api_error_prefix =
     [35843, 29992] @ u ''API'' @ [26102, 21457, 29983, 26410, 30693, 38169, 35823, 58, 32]"

text \<open>
  \<open>encode_image_to_base64\<close>: the bytes of the file, or \<open>sys.exit(1)\<close> when the
  file is missing or cannot be read. The transcoding to Base64 text is left
  out: the bytes stand for their encoding.
\<close>

definition encode_image_to_base64 :: "sel_env \<Rightarrow> ustr \<Rightarrow> int + nat list" where
  "encode_image_to_base64 env image_path =
     (case image_file env of
        ImageBytes bytes \<Rightarrow> Inr bytes
      | ImageMissing \<Rightarrow> Inl 1
      | ImageUnreadable \<Rightarrow> Inl 1)"

text \<open>
  \<open>call_vlm_api\<close>. \<open>SystemExit\<close> is not an \<open>Exception\<close>, so the exit of
  \<open>encode_image_to_base64\<close> passes the handler; an empty list of choices is an
  \<open>IndexError\<close> and a content of \<open>None\<close> an \<open>AttributeError\<close>, both caught and
  turned into the error message. The wording of the instruction sent with
  the image is left out; the request carries the model name, the caller's
  description, the image and the token limit.
\<close>

definition call_vlm_api :: "sel_env \<Rightarrow> ustr \<Rightarrow> ustr \<Rightarrow> sel_result \<times> sel_event list" where
  "call_vlm_api env image_path text_prompt =
     (if \<not> list_all truthy [api_key env, base_url env, model_name env]
      then (Return config_error_message, [])
      else
        (case client_error env of
           Some msg \<Rightarrow> (Return (api_error_prefix @ msg), [CreateClient])
         | None \<Rightarrow>
             (case encode_image_to_base64 env image_path of
                Inl code \<Rightarrow> (SysExit code, [CreateClient, ReadImage image_path])
              | Inr base64_image \<Rightarrow>
                  (case api env of
                     ApiError msg \<Rightarrow> Return (api_error_prefix @ msg)
                   | Reply [] \<Rightarrow> Return (api_error_prefix @ u ''list index out of range'')
                   | Reply (None # rest) \<Rightarrow>
                       Return (api_error_prefix @ [39] @ u ''NoneType'' @ [39] @
                               u '' object has no attribute '' @ [39] @ u ''strip'' @ [39])
                   | Reply (Some content # rest) \<Rightarrow> Return (strip content),
                   [CreateClient, ReadImage image_path,
                    ChatCompletion (the (model_name env)) text_prompt base64_image 10]))))"

text \<open>
  \<open>main\<close> of the script as a process: \<open>argv\<close> is \<open>sys.argv\<close>. A wrong number of
  arguments ends with status 1; otherwise the returned string is printed,
  followed by a newline, and the status is 0.
\<close>

definition selector_main :: "sel_env \<Rightarrow> ustr list \<Rightarrow> proc \<times> sel_event list" where
  "selector_main env argv =
     (if length argv \<noteq> 3 then (Completed 1 [], [])
      else
        (case call_vlm_api env (argv ! 1) (argv ! 2) of
           (Return selected_label, events) \<Rightarrow> (Completed 0 (selected_label @ [10]), events)
         | (SysExit code, events) \<Rightarrow> (Completed code [], events)))"

text \<open>How many remote calls a list of events holds.\<close>

fun is_remote_call :: "sel_event \<Rightarrow> bool" where
  "is_remote_call (ChatCompletion m p i n) = True"
| "is_remote_call CreateClient = False"
| "is_remote_call (ReadImage p) = False"

section \<open>The Result Annotator (image_search_annotator.py)\<close>

subsection \<open>The injected script\<close>

text \<open>
  A \<open>DOMRect\<close> as \<open>getBoundingClientRect\<close> returns it, in viewport coordinates.
  The number type is left open: the script only adds.
\<close>

record 'a rect =
  rect_top :: 'a
  rect_left :: 'a
  rect_width :: 'a
  rect_height :: 'a

text \<open>
  The results document when the script runs: the bounding rectangles of the
  elements matching \<open>div.img_cont img.mimg\<close>, in document order, and the scroll
  offset of the window. The script runs to completion in one go, so neither
  changes while it runs.
\<close>

record 'a page =
  images :: "'a rect list"
  scrollX :: 'a
  scrollY :: 'a

text \<open>
  An overlay element: its text and the two style lengths, in pixels, that
  place it. The other style properties are constants and are left out.
\<close>

record 'a label =
  innerText :: ustr
  style_top :: 'a
  style_left :: 'a

text \<open>How the template literal prints a non-negative integer.\<close>

fun decimal :: "nat \<Rightarrow> ustr" where
  "decimal n = (if n < 10 then [48 + n] else decimal (n div 10) @ [48 + n mod 10])"

declare decimal.simps [simp del]

text \<open>The body of the callback, up to \<open>appendChild\<close>.\<close>

definition make_label :: "('a::plus) page \<Rightarrow> 'a rect \<Rightarrow> nat \<Rightarrow> 'a label" where
  "make_label pg img index =
     (let rect = img in
      \<lparr>innerText = decimal (index + 1),
       style_top = scrollY pg + rect_top rect,
       style_left = scrollX pg + rect_left rect\<rparr>)"

text \<open>\<open>document.body.appendChild\<close>, on the list of overlays in the document.\<close>

definition appendChild :: "'a label \<Rightarrow> 'a label list \<Rightarrow> 'a label list" where
  "appendChild l body = body @ [l]"

text \<open>\<open>NodeList.forEach\<close>: the callback gets the element and its index, from 0.\<close>

fun forEach :: "('e \<Rightarrow> nat \<Rightarrow> 's \<Rightarrow> 's) \<Rightarrow> 'e list \<Rightarrow> nat \<Rightarrow> 's \<Rightarrow> 's" where
  "forEach f [] index s = s"
| "forEach f (x # xs) index s = forEach f xs (Suc index) (f x index s)"

text \<open>
  \<open>js_code\<close>: from the overlays already in the document to those after the
  script, with the number it returns.
\<close>

definition js_code :: "('a::plus) page \<Rightarrow> 'a label list \<Rightarrow> 'a label list \<times> nat" where
  "js_code pg body =
     (let imgs = images pg in
      (forEach (\<lambda>img index b. appendChild (make_label pg img index) b) imgs 0 body,
       length imgs))"

subsection \<open>The browser session\<close>

text \<open>
  The two exceptions the handlers tell apart: Playwright's \<open>TimeoutError\<close> and
  any other \<open>Exception\<close>. Asynchronous interruption is outside the model.
\<close>

datatype exc = PlaywrightTimeoutError | OtherException

text \<open>The operations of one run, by their place in the function.\<close>

datatype step =
    Launch | NewPage
  | Goto | WaitSearchBox | Fill | Press | WaitResults | Settle | Evaluate | Screenshot | FinalWait
  | ErrorScreenshot
  | Close

text \<open>
  The calls made on Playwright, with their arguments. \<open>CScreenshot path full\<close>
  is \<open>page.screenshot(path=path, full_page=full)\<close>; \<open>CStop\<close> is leaving the
  \<open>with sync_playwright()\<close> block, which stops the driver and with it every
  browser the driver launched.
\<close>

datatype call =
    CLaunch bool
  | CNewPage
  | CGoto ustr nat
  | CWaitForSelector ustr ustr nat
  | CFill ustr ustr
  | CPress ustr ustr
  | CWaitForTimeout nat
  | CEvaluate
  | CScreenshot ustr bool
  | CClose
  | CStop

text \<open>
  A written screenshot: whether it is a capture of the whole scrollable
  document or of the viewport, and the overlays in the document at that time.
\<close>

record 'a shot =
  full_page :: bool
  shot_overlays :: "'a label list"

text \<open>
  The world outside the function: which operation raises what, and the
  results document the script will find.
\<close>

record 'a ann_env =
  raises :: "step \<Rightarrow> exc option"
  results :: "'a page"

text \<open>
  What a run has done so far: the calls made, the files written (in order),
  the overlays in the document.
\<close>

record 'a world =
  calls :: "call list"
  files :: "(ustr \<times> 'a shot) list"
  overlays :: "'a label list"

definition world0 :: "'a world" where
  "world0 = \<lparr>calls = [], files = [], overlays = []\<rparr>"

text \<open>
  One operation: the call is made; if the world says it raises, the
  exception leaves it and it has no effect, otherwise its effect takes place.
\<close>

definition perform ::
  "'a ann_env \<Rightarrow> step \<Rightarrow> call \<Rightarrow> ('a world \<Rightarrow> 'a world) \<Rightarrow> 'a world \<Rightarrow> exc option \<times> 'a world" where
  "perform env st c effect w =
     (let w' = w\<lparr>calls := calls w @ [c]\<rparr> in
      case raises env st of
        Some e \<Rightarrow> (Some e, w')
      | None \<Rightarrow> (None, effect w'))"

text \<open>Straight-line code: the operations in order, up to the first that raises.\<close>

fun run_steps ::
  "'a ann_env \<Rightarrow> (step \<times> call \<times> ('a world \<Rightarrow> 'a world)) list \<Rightarrow> 'a world
     \<Rightarrow> exc option \<times> 'a world" where
  "run_steps env [] w = (None, w)"
| "run_steps env ((st, c, effect) # rest) w =
     (case perform env st c effect w of
        (Some e, w') \<Rightarrow> (Some e, w')
      | (None, w') \<Rightarrow> run_steps env rest w')"

definition error_screenshot :: ustr where
  "error_screenshot = u ''error_screenshot.png''"

definition search_box_selector :: ustr where
  "search_box_selector = u ''#sb_form_q''"

definition image_container_selector :: ustr where
  "image_container_selector = u ''div.img_cont''"

text \<open>\<open>page.screenshot\<close> without \<open>full_page\<close> captures the viewport only.\<close>

definition default_full_page :: bool where
  "default_full_page = False"

text \<open>The effect of a screenshot that succeeds: the file is written.\<close>

definition write_shot :: "ustr \<Rightarrow> bool \<Rightarrow> 'a world \<Rightarrow> 'a world" where
  "write_shot path full w =
     w\<lparr>files := files w @ [(path, \<lparr>full_page = full, shot_overlays = overlays w\<rparr>)]\<rparr>"

text \<open>The effect of \<open>page.evaluate(js_code)\<close>; the count it returns is only printed.\<close>

definition evaluate :: "('a::plus) ann_env \<Rightarrow> 'a world \<Rightarrow> 'a world" where
  "evaluate env w = w\<lparr>overlays := fst (js_code (results env) (overlays w))\<rparr>"

text \<open>The body of the \<open>try\<close> block.\<close>

definition try_body ::
  "('a::plus) ann_env \<Rightarrow> ustr \<Rightarrow> (step \<times> call \<times> ('a world \<Rightarrow> 'a world)) list" where
  "try_body env query =
     [(Goto, CGoto (u ''https://www.bing.com/images/search'') 60000, id),
      (WaitSearchBox, CWaitForSelector search_box_selector (u ''visible'') 10000, id),
      (Fill, CFill search_box_selector query, id),
      (Press, CPress search_box_selector (u ''Enter''), id),
      (WaitResults, CWaitForSelector image_container_selector (u ''visible'') 15000, id),
      (Settle, CWaitForTimeout 3000, id),
      (Evaluate, CEvaluate, evaluate env),
      (Screenshot, CScreenshot labeled_screenshot True, write_shot labeled_screenshot True),
      (FinalWait, CWaitForTimeout 3000, id)]"

text \<open>Either handler: the diagnostic screenshot, after which the exception is dropped.\<close>

definition handler :: "'a ann_env \<Rightarrow> 'a world \<Rightarrow> exc option \<times> 'a world" where
  "handler env w =
     perform env ErrorScreenshot (CScreenshot error_screenshot default_full_page)
       (write_shot error_screenshot default_full_page) w"

definition leave_with :: "'a world \<Rightarrow> 'a world" where
  "leave_with w = w\<lparr>calls := calls w @ [CStop]\<rparr>"

text \<open>
  \<open>annotate_image_search\<close>. The result is the exception that leaves the
  function, if any, and what the run did. The launch passes the constant
  \<open>False\<close> for \<open>headless\<close>, as the source does. An exception raised in the
  \<open>finally\<close> block replaces the one on its way out.
\<close>

definition annotate_image_search ::
  "('a::plus) ann_env \<Rightarrow> ustr \<Rightarrow> bool \<Rightarrow> exc option \<times> 'a world" where
  "annotate_image_search env query headless =
     (case perform env Launch (CLaunch False) id world0 of
        (Some e, w1) \<Rightarrow> (Some e, leave_with w1)
      | (None, w1) \<Rightarrow>
          (case perform env NewPage CNewPage id w1 of
             (Some e, w2) \<Rightarrow> (Some e, leave_with w2)
           | (None, w2) \<Rightarrow>
               (let (r, w3) =
                      (case run_steps env (try_body env query) w2 of
                         (None, w) \<Rightarrow> (None, w)
                       | (Some PlaywrightTimeoutError, w) \<Rightarrow> handler env w
                       | (Some OtherException, w) \<Rightarrow> handler env w);
                    (c, w4) = perform env Close CClose id w3
                in (case c of Some e \<Rightarrow> Some e | None \<Rightarrow> r, leave_with w4))))"

text \<open>
  The script as a process: \<open>--visible\<close> stores \<open>False\<close> into \<open>headless\<close>, whose
  default is \<open>True\<close>. The status is 0 when the function returns and 1 when an
  exception leaves it. What the script prints is not modelled.
\<close>

definition annotator_main :: "('a::plus) ann_env \<Rightarrow> ustr \<Rightarrow> bool \<Rightarrow> proc \<times> 'a world" where
  "annotator_main env query visible =
     (let headless = \<not> visible;
          (r, w) = annotate_image_search env query headless
      in (Completed (case r of None \<Rightarrow> 0 | Some e \<Rightarrow> 1) [], w))"

text \<open>
  Whether a browser session is open after a list of calls: a launch opens
  one, \<open>browser.close()\<close> and the stop of the driver end it.
\<close>

fun session_open :: "call list \<Rightarrow> bool \<Rightarrow> bool" where
  "session_open [] b = b"
| "session_open (CLaunch h # cs) b = session_open cs True"
| "session_open (CClose # cs) b = session_open cs False"
| "session_open (CStop # cs) b = session_open cs False"
| "session_open (c # cs) b = session_open cs b"

text \<open>
  The two screenshots the function takes: the labelled one, of the whole
  document, and the diagnostic one, of the viewport.
\<close>

definition shot_call_ok :: "call \<Rightarrow> bool" where
  "shot_call_ok c =
     (case c of
        CScreenshot p f \<Rightarrow> (p = labeled_screenshot \<and> f) \<or> (p = error_screenshot \<and> \<not> f)
      | _ \<Rightarrow> True)"

definition shot_file_ok :: "ustr \<times> 'a shot \<Rightarrow> bool" where
  "shot_file_ok pf \<longleftrightarrow>
     (fst pf = labeled_screenshot \<and> full_page (snd pf))
     \<or> (fst pf = error_screenshot \<and> \<not> full_page (snd pf))"

definition shots_ok :: "'a world \<Rightarrow> bool" where
  "shots_ok w \<longleftrightarrow> list_all shot_call_ok (calls w) \<and> list_all shot_file_ok (files w)"

section \<open>Example worlds\<close>

text \<open>A world in which only the given operation raises; the results document has three thumbnails.\<close>

definition three_thumbnails :: "int page" where
  "three_thumbnails =
     \<lparr>images = [\<lparr>rect_top = 10, rect_left = 8, rect_width = 200, rect_height = 150\<rparr>,
                \<lparr>rect_top = 10, rect_left = 216, rect_width = 180, rect_height = 150\<rparr>,
                \<lparr>rect_top = 168, rect_left = 8, rect_width = 220, rect_height = 150\<rparr>],
      scrollX = 0, scrollY = 120\<rparr>"

definition only_raises :: "step \<Rightarrow> exc \<Rightarrow> int ann_env" where
  "only_raises st e =
     \<lparr>raises = (\<lambda>s. if s = st then Some e else None), results = three_thumbnails\<rparr>"

text \<open>
  A fully configured Selection Client whose model answers with one choice
  holding the given text: the stub model of the specification's examples.
\<close>

definition stub_env :: "ustr \<Rightarrow> sel_env" where
  "stub_env reply =
     \<lparr>api_key = Some (u ''sk-test''), base_url = Some (u ''http://localhost:8000/v1''),
      model_name = Some (u ''stub-vlm''), client_error = None,
      image_file = ImageBytes [137, 80, 78, 71], api = Reply [Some reply]\<rparr>"

text \<open>A Selection Client with no connection parameter set.\<close>

definition unconfigured_env :: sel_env where
  "unconfigured_env =
     \<lparr>api_key = None, base_url = None, model_name = None, client_error = None,
      image_file = ImageBytes [137, 80, 78, 71], api = Reply [Some (u ''3'')]\<rparr>"

section \<open>Facts about \<open>strip\<close>\<close>

lemma rstrip_decomp: "\<exists>suf. s = rstrip s @ suf \<and> list_all is_space suf"
proof -
  have "s = rev (takeWhile is_space (rev s) @ dropWhile is_space (rev s))"
    by (simp only: takeWhile_dropWhile_id rev_rev_ident)
  then have "s = rstrip s @ rev (takeWhile is_space (rev s))"
    by (simp only: rev_append rstrip_def)
  moreover have "list_all is_space (rev (takeWhile is_space (rev s)))"
    by (simp add: list_all_iff) (meson set_takeWhileD)
  ultimately show ?thesis by blast
qed

lemma lstrip_decomp: "\<exists>pre. s = pre @ lstrip s \<and> list_all is_space pre"
proof -
  have "s = takeWhile is_space s @ lstrip s" by (simp add: lstrip_def)
  moreover have "list_all is_space (takeWhile is_space s)"
    by (simp add: list_all_iff) (meson set_takeWhileD)
  ultimately show ?thesis by blast
qed

lemma strip_decomp: "\<exists>pre suf. s = pre @ strip s @ suf \<and> list_all is_space pre \<and> list_all is_space suf"
proof -
  obtain pre where p: "s = pre @ lstrip s" "list_all is_space pre"
    using lstrip_decomp by blast
  obtain suf where q: "lstrip s = rstrip (lstrip s) @ suf" "list_all is_space suf"
    using rstrip_decomp by blast
  have "s = pre @ strip s @ suf" using p(1) q(1) by (simp add: strip_def)
  then show ?thesis using p(2) q(2) by blast
qed

lemma rstrip_last: "rstrip s \<noteq> [] \<Longrightarrow> \<not> is_space (last (rstrip s))"
  by (simp add: rstrip_def last_rev hd_dropWhile)

lemma lstrip_hd: "lstrip s \<noteq> [] \<Longrightarrow> \<not> is_space (hd (lstrip s))"
  by (simp add: lstrip_def hd_dropWhile)

lemma rstrip_hd: "rstrip s \<noteq> [] \<Longrightarrow> hd (rstrip s) = hd s"
proof -
  assume n: "rstrip s \<noteq> []"
  obtain suf where "s = rstrip s @ suf" using rstrip_decomp by blast
  then have "hd s = hd (rstrip s @ suf)" by simp
  then show ?thesis using n by simp
qed

lemma strip_ends: "strip s \<noteq> [] \<Longrightarrow> \<not> is_space (hd (strip s)) \<and> \<not> is_space (last (strip s))"
proof -
  assume n: "strip s \<noteq> []"
  then have r: "rstrip (lstrip s) \<noteq> []" by (simp add: strip_def)
  then have l: "lstrip s \<noteq> []" by (auto simp: rstrip_def)
  have "hd (strip s) = hd (lstrip s)" using rstrip_hd [OF r] by (simp add: strip_def)
  then have "\<not> is_space (hd (strip s))" using lstrip_hd [OF l] by simp
  moreover have "\<not> is_space (last (strip s))" using rstrip_last [OF r] by (simp add: strip_def)
  ultimately show ?thesis by simp
qed

lemma is_space_newline: "is_space 10"
  by (simp add: is_space_def)

lemma strip_line: "strip (strip s @ [10]) = strip s"
proof (cases "strip s = []")
  case True
  have "strip [10] = []"
    by (simp add: strip_def lstrip_def rstrip_def is_space_newline)
  then show ?thesis by (simp add: True)
next
  case False
  then have e: "\<not> is_space (hd (strip s))" "\<not> is_space (last (strip s))"
    using strip_ends by blast+
  have "lstrip (strip s @ [10]) = strip s @ [10]"
    using False e(1) by (cases "strip s") (simp_all add: lstrip_def)
  moreover have "rstrip (strip s @ [10]) = rstrip (strip s)"
    by (simp add: rstrip_def is_space_newline)
  moreover have "rstrip (strip s) = strip s"
    using False e(2) by (cases "rev (strip s)") (simp_all add: rstrip_def last_rev [symmetric] hd_rev)
  ultimately show ?thesis by (simp add: strip_def)
qed

section \<open>Facts about the scripts' names\<close>

lemma scripts_differ: "annotator_script \<noteq> selector_script"
  by (simp add: annotator_script_def selector_script_def u_def)

lemma main_after_selector:
  assumes "subprocess_run [annotator_script, query] = Completed 0 aout"
    and "subprocess_run [selector_script, labeled_screenshot, prompt] = Completed 0 out"
    and "strip out \<noteq> []"
  shows "exit_code (main subprocess_run query prompt) = 0
       \<and> reported (main subprocess_run query prompt) = Some (strip out)"
  using assms
  by (simp add: main_def run_image_search_def run_vlm_selector_def Let_def)

section \<open>The orchestrator stops after a failed annotation\<close>

text \<open>
  C2. Whenever the Result Annotator stage reports failure (its process does
  not return status 0), the orchestrator starts the Selection Client zero
  times and the pipeline ends with the non-zero status 1.
\<close>

theorem main_stops_when_annotation_fails:
  assumes "\<not> stage_ok (subprocess_run [annotator_script, query])"
  shows "selector_calls (main subprocess_run query prompt) = 0
       \<and> exit_code (main subprocess_run query prompt) = 1
       \<and> reported (main subprocess_run query prompt) = None"
  using assms
  by (cases "subprocess_run [annotator_script, query]")
     (simp_all add: main_def run_image_search_def selector_calls_def scripts_differ)

theorem main_stops_when_annotation_fails_witness:
  "\<not> stage_ok ((\<lambda>argv. Completed 1 []) [annotator_script, u ''cute cats''])
   \<and> selector_calls (main (\<lambda>argv. Completed 1 []) (u ''cute cats'') (u ''a yawning cat'')) = 0
   \<and> exit_code (main (\<lambda>argv. Completed 1 []) (u ''cute cats'') (u ''a yawning cat'')) = 1"
  using main_stops_when_annotation_fails
    [of "\<lambda>argv. Completed 1 []" "u ''cute cats''" "u ''a yawning cat''"]
  by simp

section \<open>What the Selection Client returns\<close>

text \<open>
  C7. When the model answers with a text, the Selection Client returns that
  text with the whitespace around it removed and nothing else changed: the
  answer is some whitespace, the returned string, some whitespace, and the
  returned string neither starts nor ends with whitespace. No check that it
  is a number is made. When the orchestrator, after a successful annotation,
  reads back from the Selection Client's process exactly what the script
  printed, a non-empty returned string is the label it reports, with
  status 0.
\<close>

theorem selector_returns_trimmed_reply:
  assumes "list_all truthy [api_key env, base_url env, model_name env]"
    and "client_error env = None"
    and "image_file env = ImageBytes bytes"
    and "api env = Reply (Some content # rest)"
  shows "fst (call_vlm_api env image_path text_prompt) = Return (strip content)
       \<and> (\<exists>pre suf. content = pre @ strip content @ suf
                    \<and> list_all is_space pre \<and> list_all is_space suf)
       \<and> (strip content \<noteq> [] \<longrightarrow>
            \<not> is_space (hd (strip content)) \<and> \<not> is_space (last (strip content)))
       \<and> (subprocess_run [annotator_script, query] = Completed 0 aout
            \<and> subprocess_run [selector_script, labeled_screenshot, text_prompt]
                = fst (selector_main env [selector_script, labeled_screenshot, text_prompt])
            \<and> strip content \<noteq> [] \<longrightarrow>
            reported (main subprocess_run query text_prompt) = Some (strip content)
            \<and> exit_code (main subprocess_run query text_prompt) = 0)"
proof -
  have r: "fst (call_vlm_api env image_path text_prompt) = Return (strip content)" for image_path
    using assms by (simp add: call_vlm_api_def encode_image_to_base64_def)
  have m: "fst (selector_main env [selector_script, labeled_screenshot, text_prompt])
             = Completed 0 (strip content @ [10])"
    using r [of labeled_screenshot]
    by (cases "call_vlm_api env labeled_screenshot text_prompt") (simp add: selector_main_def)
  have p: "reported (main subprocess_run query text_prompt) = Some (strip content)
         \<and> exit_code (main subprocess_run query text_prompt) = 0"
    if a: "subprocess_run [annotator_script, query] = Completed 0 aout"
      and b: "subprocess_run [selector_script, labeled_screenshot, text_prompt]
                = fst (selector_main env [selector_script, labeled_screenshot, text_prompt])"
      and ne: "strip content \<noteq> []"
  proof -
    have "subprocess_run [selector_script, labeled_screenshot, text_prompt]
            = Completed 0 (strip content @ [10])"
      using b m by simp
    then show ?thesis
      using a ne
        main_after_selector
          [where subprocess_run = subprocess_run and query = query and aout = aout
             and prompt = text_prompt and out = "strip content @ [10]"]
      by (simp add: strip_line)
  qed
  show ?thesis using r strip_decomp strip_ends p by blast
qed

theorem selector_returns_trimmed_reply_witness:
  "fst (call_vlm_api (stub_env (u '' 3 '')) labeled_screenshot (u ''a yawning cat'')) = Return (u ''3'')
   \<and> fst (selector_main (stub_env (u '' 3 ''))
            [selector_script, labeled_screenshot, u ''a yawning cat'']) = Completed 0 (u ''3'' @ [10])
   \<and> reported (main (\<lambda>argv. if argv = [annotator_script, u ''cute cats''] then Completed 0 []
                             else Completed 0 (u ''3'' @ [10]))
                 (u ''cute cats'') (u ''a yawning cat''))
       = Some (u ''3'')
   \<and> exit_code (main (\<lambda>argv. if argv = [annotator_script, u ''cute cats''] then Completed 0 []
                              else Completed 0 (u ''3'' @ [10]))
                  (u ''cute cats'') (u ''a yawning cat''))
       = 0
   \<and> fst (call_vlm_api (stub_env (u ''I think it'' @ [39] @ u ''s number 3.'')) labeled_screenshot
            (u ''a yawning cat''))
       = Return (u ''I think it'' @ [39] @ u ''s number 3.'')"
proof -
  let ?run = "\<lambda>argv. if argv = [annotator_script, u ''cute cats''] then Completed 0 []
                     else Completed 0 (u ''3'' @ [10])"
  have s1: "strip (u '' 3 '') = u ''3''"
    by (simp add: u_def strip_def lstrip_def rstrip_def is_space_def)
  have s2: "strip (u ''I think it'' @ [39] @ u ''s number 3.'')
              = u ''I think it'' @ [39] @ u ''s number 3.''"
    by (simp add: u_def strip_def lstrip_def rstrip_def is_space_def)
  have "u ''3'' \<noteq> []" by (simp add: u_def)
  then have n: "strip (u '' 3 '') \<noteq> []" by (simp add: s1)
  have k: "list_all truthy [api_key (stub_env r), base_url (stub_env r), model_name (stub_env r)]"
    for r by (simp add: stub_env_def u_def)
  have c: "client_error (stub_env r) = None" for r by (simp add: stub_env_def)
  have i: "image_file (stub_env r) = ImageBytes [137, 80, 78, 71]" for r
    by (simp add: stub_env_def)
  have a: "api (stub_env r) = Reply (Some r # [])" for r by (simp add: stub_env_def)
  note t1 = selector_returns_trimmed_reply
      [where subprocess_run = ?run and query = "u ''cute cats''" and aout = "[]"
         and image_path = labeled_screenshot and text_prompt = "u ''a yawning cat''",
       OF k c i a, of "u '' 3 ''"]
  note t2 = selector_returns_trimmed_reply
      [where subprocess_run = ?run and query = "u ''cute cats''" and aout = "[]"
         and image_path = labeled_screenshot and text_prompt = "u ''a yawning cat''",
       OF k c i a, of "u ''I think it'' @ [39] @ u ''s number 3.''"]
  have "fst (call_vlm_api (stub_env (u '' 3 '')) labeled_screenshot (u ''a yawning cat''))
          = Return (strip (u '' 3 ''))"
    using t1 by blast
  then have r1: "fst (call_vlm_api (stub_env (u '' 3 '')) labeled_screenshot (u ''a yawning cat''))
              = Return (u ''3'')"
    by (simp only: s1)
  have printed: "fst (selector_main (stub_env (u '' 3 ''))
                       [selector_script, labeled_screenshot, u ''a yawning cat''])
                   = Completed 0 (u ''3'' @ [10])"
    using r1
    by (cases "call_vlm_api (stub_env (u '' 3 '')) labeled_screenshot (u ''a yawning cat'')")
       (simp add: selector_main_def)
  have h1: "?run [annotator_script, u ''cute cats''] = Completed 0 []" by simp
  have h2: "?run [selector_script, labeled_screenshot, u ''a yawning cat'']
              = fst (selector_main (stub_env (u '' 3 ''))
                       [selector_script, labeled_screenshot, u ''a yawning cat''])"
    by (simp add: printed)
  have "reported (main ?run (u ''cute cats'') (u ''a yawning cat'')) = Some (strip (u '' 3 ''))
      \<and> exit_code (main ?run (u ''cute cats'') (u ''a yawning cat'')) = 0"
    using t1 h1 h2 n by blast
  then have r2: "reported (main ?run (u ''cute cats'') (u ''a yawning cat'')) = Some (u ''3'')
          \<and> exit_code (main ?run (u ''cute cats'') (u ''a yawning cat'')) = 0"
    by (simp only: s1)
  have "fst (call_vlm_api (stub_env (u ''I think it'' @ [39] @ u ''s number 3.''))
               labeled_screenshot (u ''a yawning cat''))
          = Return (strip (u ''I think it'' @ [39] @ u ''s number 3.''))"
    using t2 by blast
  then have r3: "fst (call_vlm_api (stub_env (u ''I think it'' @ [39] @ u ''s number 3.''))
                   labeled_screenshot (u ''a yawning cat''))
              = Return (u ''I think it'' @ [39] @ u ''s number 3.'')"
    by (simp only: s2)
  show ?thesis using r1 r2 r3 printed by blast
qed

section \<open>Missing connection parameters\<close>

lemma config_error_message_stripped: "strip (config_error_message @ [10]) = config_error_message"
  by (simp add: u_def strip_def lstrip_def rstrip_def is_space_def config_error_message_def)

lemma config_error_message_nonempty: "config_error_message \<noteq> []"
  by (simp add: config_error_message_def)

lemma missing_config_no_call:
  assumes "\<not> list_all truthy [api_key env, base_url env, model_name env]"
  shows "call_vlm_api env image_path text_prompt = (Return config_error_message, [])
       \<and> filter is_remote_call (snd (call_vlm_api env image_path text_prompt)) = []
       \<and> fst (selector_main env [selector_script, image_path, text_prompt])
           = Completed 0 (config_error_message @ [10])"
proof -
  have r: "call_vlm_api env image_path text_prompt = (Return config_error_message, [])"
    using assms by (simp add: call_vlm_api_def)
  then show ?thesis by (simp add: selector_main_def)
qed

text \<open>
  C4 has the Selection Client return a configuration-error string without
  raising and without a remote call, and the orchestrator report failure.
  With no connection parameter set, the Selection Client does return the
  message, does nothing to the outside, and its script prints the message
  and ends with status 0. The orchestrator decodes the child's output as GBK;
  when the child wrote it in GBK, so that the orchestrator reads back the
  message as printed, then after a successful annotation it ends with
  status 0 and reports the message as the selected label.
\<close>

theorem missing_config_reported_as_success:
  "call_vlm_api unconfigured_env labeled_screenshot (u ''a yawning cat'')
     = (Return config_error_message, [])
   \<and> fst (selector_main unconfigured_env [selector_script, labeled_screenshot, u ''a yawning cat''])
       = Completed 0 (config_error_message @ [10])
   \<and> exit_code (main (\<lambda>argv. if argv = [annotator_script, u ''cute cats''] then Completed 0 []
                              else Completed 0 (config_error_message @ [10]))
                  (u ''cute cats'') (u ''a yawning cat'')) = 0
   \<and> reported (main (\<lambda>argv. if argv = [annotator_script, u ''cute cats''] then Completed 0 []
                             else Completed 0 (config_error_message @ [10]))
                 (u ''cute cats'') (u ''a yawning cat''))
       = Some config_error_message"
proof -
  let ?run = "\<lambda>argv. if argv = [annotator_script, u ''cute cats''] then Completed 0 []
                     else Completed 0 (config_error_message @ [10])"
  have h: "\<not> list_all truthy
             [api_key unconfigured_env, base_url unconfigured_env, model_name unconfigured_env]"
    by (simp add: unconfigured_env_def)
  have a: "?run [annotator_script, u ''cute cats''] = Completed 0 []" by simp
  have b: "?run [selector_script, labeled_screenshot, u ''a yawning cat'']
             = Completed 0 (config_error_message @ [10])" by simp
  have "exit_code (main ?run (u ''cute cats'') (u ''a yawning cat'')) = 0
      \<and> reported (main ?run (u ''cute cats'') (u ''a yawning cat'')) = Some config_error_message"
    using a b
      main_after_selector
        [where subprocess_run = ?run and query = "u ''cute cats''" and aout = "[]"
           and prompt = "u ''a yawning cat''" and out = "config_error_message @ [10]"]
    by (simp add: config_error_message_stripped config_error_message_nonempty)
  then show ?thesis
    using missing_config_no_call [OF h, of labeled_screenshot "u ''a yawning cat''"] by simp
qed

section \<open>When the orchestrator reports success\<close>

text \<open>
  C9. The orchestrator ends with status 0 exactly when both child processes
  returned status 0 and the stripped standard output of the Selection Client
  is not empty; it then reports that stripped output as the selected label,
  whatever it is. In every other case (a child failed, could not be started,
  or the stripped output is empty) it ends with status 1 and reports no
  label.
\<close>

theorem main_success_iff:
  "(exit_code (main subprocess_run query prompt) = 0 \<longleftrightarrow>
      (\<exists>out1 out2. subprocess_run [annotator_script, query] = Completed 0 out1
          \<and> subprocess_run [selector_script, labeled_screenshot, prompt] = Completed 0 out2
          \<and> strip out2 \<noteq> []))
   \<and> (\<forall>out1 out2. subprocess_run [annotator_script, query] = Completed 0 out1
          \<and> subprocess_run [selector_script, labeled_screenshot, prompt] = Completed 0 out2
          \<and> strip out2 \<noteq> [] \<longrightarrow>
        reported (main subprocess_run query prompt) = Some (strip out2))
   \<and> (exit_code (main subprocess_run query prompt) \<noteq> 0 \<longrightarrow>
        exit_code (main subprocess_run query prompt) = 1
        \<and> reported (main subprocess_run query prompt) = None)"
  by (cases "subprocess_run [annotator_script, query]";
      cases "subprocess_run [selector_script, labeled_screenshot, prompt]")
     (simp_all add: main_def run_image_search_def run_vlm_selector_def)

theorem main_success_iff_witness:
  "exit_code (main (\<lambda>argv. Completed 0 (u ''Error: no such model'' @ [10]))
       (u ''cute cats'') (u ''a yawning cat'')) = 0
   \<and> reported (main (\<lambda>argv. Completed 0 (u ''Error: no such model'' @ [10]))
       (u ''cute cats'') (u ''a yawning cat'')) = Some (u ''Error: no such model'')
   \<and> exit_code (main (\<lambda>argv. Completed 0 (u ''  '' @ [10]))
       (u ''cute cats'') (u ''a yawning cat'')) = 1"
proof -
  have s1: "strip (u ''Error: no such model'' @ [10]) = u ''Error: no such model''"
    by (simp add: u_def strip_def lstrip_def rstrip_def is_space_def)
  have s2: "strip (u ''  '' @ [10]) = []"
    by (simp add: u_def strip_def lstrip_def rstrip_def is_space_def)
  have n: "u ''Error: no such model'' \<noteq> []" by (simp add: u_def)
  show ?thesis
    using main_success_iff
        [of "\<lambda>argv. Completed 0 (u ''Error: no such model'' @ [10])" "u ''cute cats''"
            "u ''a yawning cat''"]
      main_success_iff
        [of "\<lambda>argv. Completed 0 (u ''  '' @ [10])" "u ''cute cats''" "u ''a yawning cat''"]
    by (simp add: s1 s2 n)
qed

section \<open>The labels the script adds\<close>

lemma forEach_labels:
  "forEach (\<lambda>img index b. appendChild (make_label pg img index) b) imgs i body
     = body @ map (\<lambda>(img, k). make_label pg img k) (zip imgs [i..<i + length imgs])"
proof (induction imgs arbitrary: i body)
  case Nil
  then show ?case by simp
next
  case (Cons img imgs)
  have "[i..<i + length (img # imgs)] = i # [Suc i..<Suc i + length imgs]"
    by (simp add: upt_conv_Cons del: upt_Suc)
  then show ?case by (simp add: Cons.IH del: upt_Suc) (simp add: appendChild_def)
qed

lemma js_code_labels:
  "fst (js_code pg body)
     = body @ map (\<lambda>(img, k). make_label pg img k) (zip (images pg) [0..<length (images pg)])"
  using forEach_labels [of pg "images pg" 0 body] by (simp add: js_code_def Let_def)

lemma new_labels:
  "drop (length body) (fst (js_code pg body))
     = map (\<lambda>(img, k). make_label pg img k) (zip (images pg) [0..<length (images pg)])"
  by (simp add: js_code_labels)






lemma map_zip_fst: "length xs = length ys \<Longrightarrow> map (\<lambda>p. f (fst p)) (zip xs ys) = map f xs"
  by (induction xs ys rule: list_induct2) simp_all




text \<open>
  C6. For every thumbnail and any scroll offset, the overlay added for it is
  placed at the thumbnail's viewport rectangle plus the scroll offset of the
  window, both read while the script runs: its top is the sum of \<open>scrollY\<close>
  and \<open>rect.top\<close>, its left the sum of \<open>scrollX\<close> and \<open>rect.left\<close>, with the
  summands in the order the source writes them.
\<close>

theorem overlay_coordinates:
  "map (\<lambda>l. (style_top l, style_left l)) (drop (length body) (fst (js_code pg body)))
     = map (\<lambda>r. (scrollY pg + rect_top r, scrollX pg + rect_left r)) (images pg)"
proof -
  have "map (\<lambda>l. (style_top l, style_left l))
          (map (\<lambda>(img, k). make_label pg img k) (zip (images pg) [0..<length (images pg)]))
        = map (\<lambda>p. (scrollY pg + rect_top (fst p), scrollX pg + rect_left (fst p)))
            (zip (images pg) [0..<length (images pg)])"
    by (simp add: make_label_def case_prod_unfold comp_def)
  also have "\<dots> = map (\<lambda>r. (scrollY pg + rect_top r, scrollX pg + rect_left r)) (images pg)"
    by (rule map_zip_fst) simp
  finally show ?thesis by (simp only: new_labels)
qed

theorem overlay_coordinates_witness:
  "map (\<lambda>l. (style_top l, style_left l)) (fst (js_code three_thumbnails []))
     = [(130, 8), (130, 216), (288, 8)]"
  using overlay_coordinates [of "[]" three_thumbnails]
  by (simp add: three_thumbnails_def)

section \<open>Facts about a run of the annotator\<close>

lemma paths_differ: "error_screenshot \<noteq> labeled_screenshot"
  by (simp add: error_screenshot_def labeled_screenshot_def u_def)

lemma run_steps_invariant:
  assumes "I w"
    and "\<And>st c effect v. (st, c, effect) \<in> set specs \<Longrightarrow> I v \<Longrightarrow>
           I (v\<lparr>calls := calls v @ [c]\<rparr>) \<and> I (effect (v\<lparr>calls := calls v @ [c]\<rparr>))"
  shows "I (snd (run_steps env specs w))"
  using assms
proof (induction specs arbitrary: w)
  case Nil
  then show ?case by simp
next
  case (Cons sp specs)
  obtain st c effect where sp: "sp = (st, c, effect)" by (cases sp)
  have step: "I (w\<lparr>calls := calls w @ [c]\<rparr>) \<and> I (effect (w\<lparr>calls := calls w @ [c]\<rparr>))"
    using Cons.prems(2) [of st c effect w] Cons.prems(1) by (simp add: sp)
  show ?case
  proof (cases "raises env st")
    case None
    have "I (snd (run_steps env specs (effect (w\<lparr>calls := calls w @ [c]\<rparr>))))"
      by (rule Cons.IH) (use step Cons.prems(2) in auto)
    then show ?thesis using None by (simp add: sp perform_def Let_def)
  next
    case (Some e)
    then show ?thesis using step by (simp add: sp perform_def Let_def)
  qed
qed

lemma perform_id: "perform env st c id w = (raises env st, w\<lparr>calls := calls w @ [c]\<rparr>)"
  by (simp add: perform_def Let_def split: option.splits)

lemma handler_eq:
  "handler env w =
     (raises env ErrorScreenshot,
      if raises env ErrorScreenshot = None
      then w\<lparr>calls := calls w @ [CScreenshot error_screenshot False],
             files := files w @ [(error_screenshot, \<lparr>full_page = False, shot_overlays = overlays w\<rparr>)]\<rparr>
      else w\<lparr>calls := calls w @ [CScreenshot error_screenshot False]\<rparr>)"
  by (simp add: handler_def perform_def write_shot_def default_full_page_def Let_def
      split: option.splits)

lemma annotate_no_browser:
  "raises env Launch = Some e \<Longrightarrow>
     annotate_image_search env query headless = (Some e, world0\<lparr>calls := [CLaunch False, CStop]\<rparr>)"
  by (simp add: annotate_image_search_def perform_id leave_with_def world0_def)

lemma annotate_no_page:
  "raises env Launch = None \<Longrightarrow> raises env NewPage = Some e \<Longrightarrow>
     annotate_image_search env query headless
       = (Some e, world0\<lparr>calls := [CLaunch False, CNewPage, CStop]\<rparr>)"
  by (simp add: annotate_image_search_def perform_id leave_with_def world0_def)

lemma annotate_entered:
  assumes "raises env Launch = None" and "raises env NewPage = None"
  shows "annotate_image_search env query headless =
     (let t = run_steps env (try_body env query) (world0\<lparr>calls := [CLaunch False, CNewPage]\<rparr>);
          h = (if fst t = None then t else handler env (snd t))
      in (case raises env Close of Some e \<Rightarrow> Some e | None \<Rightarrow> fst h,
          (snd h)\<lparr>calls := calls (snd h) @ [CClose, CStop]\<rparr>))"
  using assms
  by (simp add: annotate_image_search_def perform_id leave_with_def world0_def Let_def
      split: prod.splits option.splits exc.splits)

lemma session_open_stop: "session_open (cs @ [CStop]) b = False"
  by (induction cs b rule: session_open.induct) simp_all

lemma run_results_timeout:
  "annotate_image_search (only_raises WaitResults PlaywrightTimeoutError) query headless =
     (None,
      \<lparr>calls = [CLaunch False, CNewPage,
                CGoto (u ''https://www.bing.com/images/search'') 60000,
                CWaitForSelector search_box_selector (u ''visible'') 10000,
                CFill search_box_selector query,
                CPress search_box_selector (u ''Enter''),
                CWaitForSelector image_container_selector (u ''visible'') 15000,
                CScreenshot error_screenshot False, CClose, CStop],
       files = [(error_screenshot, \<lparr>full_page = False, shot_overlays = []\<rparr>)],
       overlays = []\<rparr>)"
  by (simp add: annotate_image_search_def perform_def try_body_def handler_def only_raises_def
      world0_def leave_with_def write_shot_def default_full_page_def Let_def)

lemma run_final_wait_fault:
  "annotate_image_search (only_raises FinalWait OtherException) query headless =
     (None,
      \<lparr>calls = [CLaunch False, CNewPage,
                CGoto (u ''https://www.bing.com/images/search'') 60000,
                CWaitForSelector search_box_selector (u ''visible'') 10000,
                CFill search_box_selector query,
                CPress search_box_selector (u ''Enter''),
                CWaitForSelector image_container_selector (u ''visible'') 15000,
                CWaitForTimeout 3000, CEvaluate,
                CScreenshot labeled_screenshot True,
                CWaitForTimeout 3000,
                CScreenshot error_screenshot False, CClose, CStop],
       files = [(labeled_screenshot,
                 \<lparr>full_page = True, shot_overlays = fst (js_code three_thumbnails [])\<rparr>),
                (error_screenshot,
                 \<lparr>full_page = False, shot_overlays = fst (js_code three_thumbnails [])\<rparr>)],
       overlays = fst (js_code three_thumbnails [])\<rparr>)"
  by (simp add: annotate_image_search_def perform_def try_body_def handler_def only_raises_def
      world0_def leave_with_def write_shot_def default_full_page_def evaluate_def Let_def)

section \<open>The browser is closed on every path\<close>

text \<open>
  C8. Whatever the operations of a run do, no browser session is open when
  \<open>annotate_image_search\<close> is left; and whenever the browser was launched and
  its page created, so that the \<open>try\<close> block was entered, the last two calls
  of the run are \<open>browser.close()\<close> and the stop of the driver, whether the
  block succeeded, timed out or raised anything else.
\<close>

theorem browser_closed_on_every_path:
  "\<not> session_open (calls (snd (annotate_image_search env query headless))) False
   \<and> (raises env Launch = None \<and> raises env NewPage = None \<longrightarrow>
        (\<exists>pre. calls (snd (annotate_image_search env query headless)) = pre @ [CClose, CStop]))"
proof (cases "raises env Launch")
  case (Some e)
  then show ?thesis by (simp add: annotate_no_browser world0_def)
next
  case None
  show ?thesis
  proof (cases "raises env NewPage")
    case (Some e)
    then show ?thesis using None by (simp add: annotate_no_page world0_def)
  next
    case n: None
    obtain pre where p: "calls (snd (annotate_image_search env query headless)) = pre @ [CClose, CStop]"
      by (simp add: annotate_entered [OF None n] Let_def)
    then have "calls (snd (annotate_image_search env query headless)) = (pre @ [CClose]) @ [CStop]"
      by simp
    then have "\<not> session_open (calls (snd (annotate_image_search env query headless))) False"
      by (simp only: session_open_stop) simp
    then show ?thesis using p by blast
  qed
qed

theorem browser_closed_on_every_path_witness:
  "raises (only_raises Goto PlaywrightTimeoutError) Launch = None
   \<and> raises (only_raises Goto PlaywrightTimeoutError) NewPage = None
   \<and> (\<exists>pre. calls (snd (annotate_image_search (only_raises Goto PlaywrightTimeoutError)
                          (u ''cute cats'') True)) = pre @ [CClose, CStop])
   \<and> \<not> session_open (calls (snd (annotate_image_search (only_raises Launch OtherException)
                                    (u ''cute cats'') True))) False"
proof -
  have h: "raises (only_raises Goto PlaywrightTimeoutError) Launch = None
           \<and> raises (only_raises Goto PlaywrightTimeoutError) NewPage = None"
    by (simp add: only_raises_def)
  show ?thesis
    using h browser_closed_on_every_path
        [of "only_raises Goto PlaywrightTimeoutError" "u ''cute cats''" True]
      browser_closed_on_every_path
        [of "only_raises Launch OtherException" "u ''cute cats''" True]
    by blast
qed

section \<open>Which screenshot is a full-page capture\<close>

lemma try_body_shots:
  assumes "shots_ok w"
  shows "shots_ok (snd (run_steps env (try_body env query) w))"
proof (rule run_steps_invariant [where I = shots_ok, OF assms])
  fix st c effect and v :: "'a world"
  assume m: "(st, c, effect) \<in> set (try_body env query)" and v: "shots_ok v"
  show "shots_ok (v\<lparr>calls := calls v @ [c]\<rparr>) \<and> shots_ok (effect (v\<lparr>calls := calls v @ [c]\<rparr>))"
    using m v
    by (auto simp: try_body_def shots_ok_def shot_call_ok_def shot_file_ok_def write_shot_def
        evaluate_def)
qed

lemma annotate_shots: "shots_ok (snd (annotate_image_search env query headless))"
proof (cases "raises env Launch")
  case (Some e)
  then show ?thesis
    by (simp add: annotate_no_browser world0_def shots_ok_def shot_call_ok_def)
next
  case None
  show ?thesis
  proof (cases "raises env NewPage")
    case (Some e)
    then show ?thesis
      using None by (simp add: annotate_no_page world0_def shots_ok_def shot_call_ok_def)
  next
    case n: None
    have "shots_ok (world0\<lparr>calls := [CLaunch False, CNewPage]\<rparr> :: 'a world)"
      by (simp add: world0_def shots_ok_def shot_call_ok_def)
    then have "shots_ok (snd (run_steps env (try_body env query)
                   (world0\<lparr>calls := [CLaunch False, CNewPage]\<rparr>)))"
      by (rule try_body_shots)
    then show ?thesis
      by (simp add: annotate_entered [OF None n] Let_def handler_eq)
         (simp add: shots_ok_def shot_call_ok_def shot_file_ok_def)
  qed
qed

text \<open>
  C10. In every run, a screenshot taken to or written at the error path is a
  capture of the viewport only, and every full-page capture goes to the
  success path.
\<close>

theorem error_shot_is_viewport_only:
  "(\<forall>p f. CScreenshot p f \<in> set (calls (snd (annotate_image_search env query headless))) \<longrightarrow>
       (p = error_screenshot \<longrightarrow> \<not> f) \<and> (f \<longrightarrow> p = labeled_screenshot))
   \<and> (\<forall>p sh. (p, sh) \<in> set (files (snd (annotate_image_search env query headless))) \<longrightarrow>
       (p = error_screenshot \<longrightarrow> \<not> full_page sh) \<and> (full_page sh \<longrightarrow> p = labeled_screenshot))"
proof -
  have "shots_ok (snd (annotate_image_search env query headless))"
    by (rule annotate_shots)
  then show ?thesis
    using paths_differ
    by (auto simp: shots_ok_def shot_call_ok_def shot_file_ok_def list_all_iff)
qed

theorem error_shot_is_viewport_only_witness:
  "CScreenshot error_screenshot False
     \<in> set (calls (snd (annotate_image_search (only_raises FinalWait OtherException)
                          (u ''cute cats'') True)))
   \<and> CScreenshot error_screenshot True
     \<notin> set (calls (snd (annotate_image_search (only_raises FinalWait OtherException)
                          (u ''cute cats'') True)))
   \<and> CScreenshot labeled_screenshot True
     \<in> set (calls (snd (annotate_image_search (only_raises FinalWait OtherException)
                          (u ''cute cats'') True)))"
proof -
  have "CScreenshot error_screenshot False
          \<in> set (calls (snd (annotate_image_search (only_raises FinalWait OtherException)
                               (u ''cute cats'') True)))"
    "CScreenshot labeled_screenshot True
          \<in> set (calls (snd (annotate_image_search (only_raises FinalWait OtherException)
                               (u ''cute cats'') True)))"
    by (simp_all add: run_final_wait_fault)
  then show ?thesis
    using error_shot_is_viewport_only
        [of "only_raises FinalWait OtherException" "u ''cute cats''" True]
    by blast
qed

section \<open>The display mode of the browser\<close>

lemma try_body_calls:
  "\<exists>rest. calls (snd (run_steps env (try_body env query) w)) = calls w @ rest"
proof (rule run_steps_invariant [where I = "\<lambda>v. \<exists>rest. calls v = calls w @ rest"])
  show "\<exists>rest. calls w = calls w @ rest" by simp
next
  fix st c effect and v :: "'a world"
  assume m: "(st, c, effect) \<in> set (try_body env query)" and v: "\<exists>rest. calls v = calls w @ rest"
  have "calls (effect (v\<lparr>calls := calls v @ [c]\<rparr>)) = calls v @ [c]"
    using m by (auto simp: try_body_def write_shot_def evaluate_def)
  then show "(\<exists>rest. calls (v\<lparr>calls := calls v @ [c]\<rparr>) = calls w @ rest)
           \<and> (\<exists>rest. calls (effect (v\<lparr>calls := calls v @ [c]\<rparr>)) = calls w @ rest)"
    using v by auto
qed

text \<open>
  C5 asks that the \<open>headless\<close> argument decide the display mode. Called for
  the query "cute cats" with \<open>headless = True\<close>, the function launches the
  browser with \<open>headless=False\<close>, and does exactly what it does when called
  with \<open>headless = False\<close>.
\<close>

theorem headless_flag_ignored:
  "take 1 (calls (snd (annotate_image_search env (u ''cute cats'') True))) = [CLaunch False]
   \<and> annotate_image_search env (u ''cute cats'') True
       = annotate_image_search env (u ''cute cats'') False"
proof -
  have "take 1 (calls (snd (annotate_image_search env query headless))) = [CLaunch False]"
    for query headless
  proof (cases "raises env Launch")
    case (Some e)
    then show ?thesis by (simp add: annotate_no_browser world0_def)
  next
    case None
    show ?thesis
    proof (cases "raises env NewPage")
      case (Some e)
      then show ?thesis using None by (simp add: annotate_no_page world0_def)
    next
      case n: None
      obtain rest where "calls (snd (run_steps env (try_body env query)
                            (world0\<lparr>calls := [CLaunch False, CNewPage]\<rparr>)))
                          = [CLaunch False, CNewPage] @ rest"
        using try_body_calls [of env query "world0\<lparr>calls := [CLaunch False, CNewPage]\<rparr>"]
        by (auto simp: world0_def)
      then show ?thesis
        by (simp add: annotate_entered [OF None n] Let_def handler_eq)
    qed
  qed
  then show ?thesis by (simp add: annotate_image_search_def)
qed

section \<open>A failure inside the \<open>try\<close> block\<close>

text \<open>
  C1 has a run in which a wait times out take the diagnostic screenshot and
  signal failure to its caller, never success. When the wait for the results
  times out during a search for "cute cats", the function takes the
  diagnostic screenshot, writes \<open>error_screenshot.png\<close> and nothing at the
  success path, closes the browser and returns without an exception: the
  script ends with status 0, which the orchestrator takes for a successful
  annotation.
\<close>

theorem timeout_ends_with_status_zero:
  "fst (annotate_image_search (only_raises WaitResults PlaywrightTimeoutError) (u ''cute cats'') True)
     = None
   \<and> fst (annotator_main (only_raises WaitResults PlaywrightTimeoutError) (u ''cute cats'') False)
       = Completed 0 []
   \<and> stage_ok (fst (annotator_main (only_raises WaitResults PlaywrightTimeoutError)
                      (u ''cute cats'') False))
   \<and> files (snd (annotator_main (only_raises WaitResults PlaywrightTimeoutError)
                    (u ''cute cats'') False))
       = [(error_screenshot, \<lparr>full_page = False, shot_overlays = []\<rparr>)]
   \<and> run_image_search
        (\<lambda>argv. fst (annotator_main (only_raises WaitResults PlaywrightTimeoutError)
                        (u ''cute cats'') False))
        (u ''cute cats'') []
       = (Returns True, [[annotator_script, u ''cute cats'']])"
  by (simp add: annotator_main_def run_results_timeout run_image_search_def)

end
